theory Spec2Isabelle
  imports Complex_Main
begin

section \<open>The rings visualization of arbor-parser\<close>

text \<open>
  This theory embeds the component \<^verbatim>\<open>RingsVisualization\<close>
  (src/components/RingsVisualization.tsx). JavaScript numbers are modelled as
  reals (no rounding, no NaN, no infinities), strings as character lists, and
  object references (\<^verbatim>\<open>ts.Node\<close>, the hover listener) as natural-number
  identities. The circle packing itself is computed by the library d3 and is not
  part of the sources: the packed nodes enter the model of the component as
  data, and the radii d3 computes are written out for chains only.
\<close>

subsection \<open>Hierarchy nodes and their aggregate value\<close>

type_synonym ts_Node = nat

text \<open>
  \<^verbatim>\<open>HierarchyNode\<close> as the component reads it: \<^verbatim>\<open>name\<close>, \<^verbatim>\<open>value\<close> (a number that
  may be missing), \<^verbatim>\<open>children\<close> and \<^verbatim>\<open>astNode\<close>.
\<close>

datatype HierarchyNode =
  HierarchyNode (name: string) (val: "real option")
    (children: "HierarchyNode list") (astNode: ts_Node)

text \<open>
  \<^verbatim>\<open>a || b\<close> on a number that may be undefined: the falsy numbers are
  \<^verbatim>\<open>undefined\<close> and \<^verbatim>\<open>0\<close>; every other number, negative ones included, is truthy.
\<close>

definition js_or :: "real option \<Rightarrow> real \<Rightarrow> real" where
  "js_or a b = (case a of None \<Rightarrow> b | Some v \<Rightarrow> if v = 0 then b else v)"

text \<open>The accessor handed to \<^verbatim>\<open>root.sum\<close>: \<^verbatim>\<open>d => d.value || 1\<close>.\<close>

definition sum_accessor :: "HierarchyNode \<Rightarrow> real" where
  "sum_accessor d = js_or (val d) 1"

text \<open>
  \<^verbatim>\<open>root.sum(f)\<close> of d3 visits the tree in post-order and stores in every node
  \<^verbatim>\<open>+f(node.data) || 0\<close> plus the stored values of its children.
\<close>

fun node_sum :: "HierarchyNode \<Rightarrow> real" where
  "node_sum (HierarchyNode n v cs a) =
     js_or (Some (sum_accessor (HierarchyNode n v cs a))) 0 + sum_list (map node_sum cs)"

subsection \<open>Dimensions, font size and padding\<close>

definition width :: real where "width = 800"
definition height :: real where "height = 600"
definition margin :: real where "margin = 50"

definition getFontSize :: "nat \<Rightarrow> real" where
  "getFontSize depth =
     (let baseSize = 40 - (real depth * 3);
          minSize = 24
      in max baseSize minSize)"

definition maxFontSize :: real where
  "maxFontSize = getFontSize 0"

text \<open>
  \<^verbatim>\<open>d3.pack().size([width - margin * 2, height - margin * 2]).padding(maxFontSize)\<close>:
  \<open>pack_size\<close> and \<open>pack_padding\<close> are the two arguments the component hands to
  d3. A number given to \<^verbatim>\<open>padding\<close> becomes the constant padding accessor, so
  \<open>pack_padding\<close> is \<^verbatim>\<open>maxFontSize\<close> for a node of any depth. It is not the
  separation that is drawn: with a size and no radius, d3 multiplies the padding
  by the scale of the layout (see \<open>packChain\<close> below).
\<close>

definition pack_size :: "real \<times> real" where
  "pack_size = (width - margin * 2, height - margin * 2)"

definition pack_padding :: "nat \<Rightarrow> real" where
  "pack_padding depth = maxFontSize"

subsection \<open>The pack layout of d3 on a chain\<close>

text \<open>
  What \<^verbatim>\<open>pack(root)\<close> of d3 computes for the radii, written out for a hierarchy
  in which every node has at most one child. The placement of several siblings
  is not modelled; the result is \<open>None\<close> there.

  \<^verbatim>\<open>packChildren(padding, k)\<close> visits the tree in post-order. A leaf keeps the
  radius \<^verbatim>\<open>Math.max(0, Math.sqrt(node.value) || 0)\<close> that \<^verbatim>\<open>radiusLeaf\<close> gave
  it. A node with children takes \<^verbatim>\<open>r = padding(node) * k\<close>, adds \<^verbatim>\<open>r\<close> to the
  radius of every child, takes the radius \<^verbatim>\<open>e\<close> of the circle enclosing them
  (for an only child, the child's enlarged radius), and stores \<^verbatim>\<open>e + r\<close>. The
  result lists the radii from the node down to the leaf.
\<close>

fun packChildren :: "(nat \<Rightarrow> real) \<Rightarrow> real \<Rightarrow> nat \<Rightarrow> HierarchyNode \<Rightarrow> real list option" where
  "packChildren padding k depth (HierarchyNode n v [] a) =
     Some [max 0 (sqrt (node_sum (HierarchyNode n v [] a)))]"
| "packChildren padding k depth (HierarchyNode n v [c] a) =
     (case packChildren padding k (Suc depth) c of
        None \<Rightarrow> None
      | Some [] \<Rightarrow> None
      | Some (rc # rs) \<Rightarrow>
          (let r = padding depth * k;
               e = rc + r
           in Some ((e + r) # rc # rs)))"
| "packChildren padding k depth (HierarchyNode n v (c # c' # cs) a) = None"

text \<open>
  \<^verbatim>\<open>pack(root)\<close> with a size and no radius: a first pass without padding gives
  the root radius \<^verbatim>\<open>root.r\<close>; the second pass uses the padding multiplied by
  \<^verbatim>\<open>root.r / Math.min(dx, dy)\<close>; then every radius is multiplied by
  \<^verbatim>\<open>Math.min(dx, dy) / (2 * root.r)\<close>, with the root radius of the second pass.
\<close>

definition packChain :: "HierarchyNode \<Rightarrow> real list option" where
  "packChain rootNode =
     (let dx = fst pack_size; dy = snd pack_size
      in case packChildren (\<lambda>depth. 0) 1 0 rootNode of
           None \<Rightarrow> None
         | Some [] \<Rightarrow> None
         | Some (r0 # rs0) \<Rightarrow>
             (case packChildren pack_padding (r0 / min dx dy) 0 rootNode of
                None \<Rightarrow> None
              | Some [] \<Rightarrow> None
              | Some (r1 # rs) \<Rightarrow>
                  Some (map (\<lambda>r. r * (min dx dy / (2 * r1))) (r1 # rs))))"

text \<open>
  An only child is placed at the centre of its parent, so the circles of a
  chain are concentric and the separation drawn between a circle and its parent
  is the difference of their radii.
\<close>

fun gaps :: "real list \<Rightarrow> real list" where
  "gaps (a # b # rs) = (a - b) # gaps (b # rs)"
| "gaps rs = []"

subsection \<open>Packed nodes and labels\<close>

text \<open>
  A node of the packed d3 hierarchy: its datum, its depth and the circle
  \<^verbatim>\<open>(x, y, r)\<close> that \<^verbatim>\<open>pack(root)\<close> stored in it. The datum carries the
  \<^verbatim>\<open>ts.Node\<close> reference, which is what tells two nodes of one tree apart.
\<close>

record PackNode =
  node_data :: HierarchyNode
  node_depth :: nat
  node_x :: real
  node_y :: real
  node_r :: real

text \<open>
  \<^verbatim>\<open>String.prototype.slice(start, end)\<close>: a negative index counts from the end of
  the string, and both indices are clamped to the string.
\<close>

definition slice :: "string \<Rightarrow> int \<Rightarrow> int \<Rightarrow> string" where
  "slice s start fin =
     (let len = int (length s);
          lo = (if start < 0 then max (len + start) 0 else min start len);
          hi = (if fin < 0 then max (len + fin) 0 else min fin len)
      in take (nat (hi - lo)) (drop (nat lo) s))"

definition maxChars :: "real \<Rightarrow> real \<Rightarrow> int" where
  "maxChars arcRadius fontSize = \<lfloor>(arcRadius * pi) / (fontSize * 0.6)\<rfloor>"

definition truncatedLabel :: "string \<Rightarrow> int \<Rightarrow> string" where
  "truncatedLabel label mc =
     (if int (length label) > mc then slice label 0 (mc - 2) @ ''...'' else label)"

text \<open>
  The elements whose \<^verbatim>\<open>opacity\<close> style the component writes: the group
  \<^verbatim>\<open>.zoom-group\<close> and the \<^verbatim>\<open>text.ring-label\<close> elements appended to it.
\<close>

datatype Element = ZoomGroup | RingLabel nat

text \<open>
  A \<^verbatim>\<open>text.ring-label\<close> element with its \<^verbatim>\<open>textPath\<close>: font size, the number
  \<^verbatim>\<open>i\<close> of its path id \<^verbatim>\<open>circle-path-i\<close>, the text drawn and the opacity style
  (1 while the style is unset).
\<close>

record TextElement =
  te_fontSize :: real
  te_href :: nat
  te_text :: string
  te_opacity :: real

text \<open>An entry of the array \<^verbatim>\<open>labelElements\<close>.\<close>

record LabelEntry =
  le_node :: PackNode
  le_text :: Element
  le_pathId :: nat

text \<open>The guard of the label loop: \<^verbatim>\<open>d.depth === 0 && d.r > 30\<close>.\<close>

definition labelled :: "PackNode \<Rightarrow> bool" where
  "labelled d = (node_depth d = 0 \<and> node_r d > 30)"


definition drawLabel :: "PackNode \<times> nat \<Rightarrow> TextElement" where
  "drawLabel di =
     (let d = fst di; i = snd di;
          label = name (node_data d);
          fontSize = getFontSize (node_depth d);
          arcRadius = node_r d - 5
      in \<lparr>te_fontSize = fontSize, te_href = i,
          te_text = truncatedLabel label (maxChars arcRadius fontSize),
          te_opacity = 1\<rparr>)"

text \<open>
  The entry pushed for a label stores as \<^verbatim>\<open>text\<close> the value
  \<^verbatim>\<open>textElement.node()?.parentElement\<close>: the parent of the text element, which is
  the group the text was appended to.
\<close>

definition labelEntry :: "PackNode \<times> nat \<Rightarrow> LabelEntry" where
  "labelEntry di = \<lparr>le_node = fst di, le_text = ZoomGroup, le_pathId = snd di\<rparr>"

definition indexed :: "PackNode list \<Rightarrow> (PackNode \<times> nat) list" where
  "indexed ns = zip ns [0..<length ns]"

subsection \<open>The state of the component\<close>

record Transform =
  tx :: real
  ty :: real
  scale :: real

text \<open>
  A running d3 transition of the group: the transform it ends at, and what its
  \<^verbatim>\<open>end\<close> listener does (show the label of the clicked node, or show them all).
\<close>

datatype Transition = ZoomTo Transform PackNode | ResetTo Transform

type_synonym listener = nat

record VizState =
  focusedNode :: "ts_Node option"
  onNodeHoverRef :: "listener option"
  hoverCalls :: "(listener \<times> ts_Node option) list"
  nodes :: "PackNode list"
  zoomTransform :: Transform
  zoomOpacity :: real
  ringLabels :: "TextElement list"
  labelElements :: "LabelEntry list"
  transition :: "Transition option"

text \<open>\<^verbatim>\<open>onNodeHoverRef.current?.(v)\<close>: the listener in the slot, if any, is called with \<^verbatim>\<open>v\<close>.\<close>

definition callHover :: "ts_Node option \<Rightarrow> VizState \<Rightarrow> VizState" where
  "callHover v s =
     (case onNodeHoverRef s of
        None \<Rightarrow> s
      | Some l \<Rightarrow> s\<lparr>hoverCalls := hoverCalls s @ [(l, v)]\<rparr>)"

text \<open>The effect on \<^verbatim>\<open>[onNodeHover]\<close>.\<close>

definition setListener :: "listener option \<Rightarrow> VizState \<Rightarrow> VizState" where
  "setListener l s = s\<lparr>onNodeHoverRef := l\<rparr>"

definition rootTransform :: Transform where
  "rootTransform = \<lparr>tx = margin, ty = margin, scale = 1\<rparr>"

text \<open>
  The effect on \<^verbatim>\<open>[ast]\<close>, given the descendants of the packed root: everything
  under the svg element is removed and drawn again. The group starts at
  \<^verbatim>\<open>translate(margin, margin)\<close>, the labels are created for the nodes that pass
  the guard, and a transition of the removed group no longer reaches anything
  drawn. The effect does not call \<^verbatim>\<open>setFocusedNode\<close>.
\<close>

definition render :: "PackNode list \<Rightarrow> VizState \<Rightarrow> VizState" where
  "render ns s =
     s\<lparr>nodes := ns,
       zoomTransform := rootTransform,
       zoomOpacity := 1,
       ringLabels := map drawLabel (filter (\<lambda>di. labelled (fst di)) (indexed ns)),
       labelElements := map labelEntry (filter (\<lambda>di. labelled (fst di)) (indexed ns)),
       transition := None\<rparr>"

text \<open>\<^verbatim>\<open>selection.style('opacity', v)\<close> on one element.\<close>

definition setOpacity :: "Element \<Rightarrow> real \<Rightarrow> VizState \<Rightarrow> VizState" where
  "setOpacity e v s =
     (case e of
        ZoomGroup \<Rightarrow> s\<lparr>zoomOpacity := v\<rparr>
      | RingLabel k \<Rightarrow>
          (if k < length (ringLabels s)
           then s\<lparr>ringLabels := (ringLabels s)[k := (ringLabels s ! k)\<lparr>te_opacity := v\<rparr>]\<rparr>
           else s))"

text \<open>\<^verbatim>\<open>selectAll('.ring-label').style('opacity', v)\<close>.\<close>

definition setAllLabels :: "real \<Rightarrow> VizState \<Rightarrow> VizState" where
  "setAllLabels v s = s\<lparr>ringLabels := map (\<lambda>t. t\<lparr>te_opacity := v\<rparr>) (ringLabels s)\<rparr>"

text \<open>The target transform computed by the click listener of a circle.\<close>

definition clickTarget :: "PackNode \<Rightarrow> Transform" where
  "clickTarget clickedNode =
     (let viewWidth = width - margin * 2;
          viewHeight = height - margin * 2;
          centerX = viewWidth / 2;
          centerY = viewHeight / 2;
          targetSize = min viewWidth viewHeight;
          k = targetSize / (node_r clickedNode * 2);
          translateX = centerX - node_x clickedNode * k;
          translateY = centerY - node_y clickedNode * k
      in \<lparr>tx = margin + translateX, ty = margin + translateY, scale = k\<rparr>)"

text \<open>
  The click listener, up to the start of the transition: the focused node is
  set, all labels are hidden, the transition to the target replaces any running
  one, and the hover listener is called with the clicked node's \<^verbatim>\<open>astNode\<close>.
\<close>

definition click :: "PackNode \<Rightarrow> VizState \<Rightarrow> VizState" where
  "click clickedNode s =
     callHover (Some (astNode (node_data clickedNode)))
       ((setAllLabels 0 (s\<lparr>focusedNode := Some (astNode (node_data clickedNode))\<rparr>))
          \<lparr>transition := Some (ZoomTo (clickTarget clickedNode) clickedNode)\<rparr>)"

definition handleResetZoom :: "VizState \<Rightarrow> VizState" where
  "handleResetZoom s =
     s\<lparr>focusedNode := None,
       transition := Some (ResetTo \<lparr>tx = 50, ty = 50, scale = 1\<rparr>)\<rparr>"

text \<open>
  The end of the running transition: the group has reached the target
  transform and the \<^verbatim>\<open>end\<close> listener runs.
\<close>

definition transitionEnd :: "VizState \<Rightarrow> VizState" where
  "transitionEnd s =
     (case transition s of
        None \<Rightarrow> s
      | Some (ZoomTo t clickedNode) \<Rightarrow>
          (let s1 = s\<lparr>zoomTransform := t, transition := None\<rparr>
           in case find (\<lambda>l. le_node l = clickedNode) (labelElements s1) of
                None \<Rightarrow> s1
              | Some clickedLabel \<Rightarrow> setOpacity (le_text clickedLabel) 1 s1)
      | Some (ResetTo t) \<Rightarrow>
          setAllLabels 1 (s\<lparr>zoomTransform := t, transition := None\<rparr>))"

definition mouseenter :: "PackNode \<Rightarrow> VizState \<Rightarrow> VizState" where
  "mouseenter d s = callHover (Some (astNode (node_data d))) s"

definition mouseleave :: "PackNode \<Rightarrow> VizState \<Rightarrow> VizState" where
  "mouseleave d s = callHover None s"

text \<open>The pointer and timer events that reach the drawn circles.\<close>

datatype Event = Click PackNode | TransitionEnd | MouseEnter PackNode | MouseLeave PackNode

fun step :: "VizState \<Rightarrow> Event \<Rightarrow> VizState" where
  "step s (Click d) = click d s"
| "step s TransitionEnd = transitionEnd s"
| "step s (MouseEnter d) = mouseenter d s"
| "step s (MouseLeave d) = mouseleave d s"

definition run :: "Event list \<Rightarrow> VizState \<Rightarrow> VizState" where
  "run es s = foldl step s es"

text \<open>The state at mount, before the first effect ran.\<close>

definition initial :: VizState where
  "initial =
     \<lparr>focusedNode = None, onNodeHoverRef = None, hoverCalls = [], nodes = [],
      zoomTransform = rootTransform, zoomOpacity = 1, ringLabels = [],
      labelElements = [], transition = None\<rparr>"

text \<open>Where the group's transform puts a point of the packed plane on the svg.\<close>

definition applyTransform :: "Transform \<Rightarrow> real \<times> real \<Rightarrow> real \<times> real" where
  "applyTransform t p = (tx t + scale t * fst p, ty t + scale t * snd p)"

section \<open>Properties\<close>

subsection \<open>Font size and padding\<close>

lemma getFontSize_0: "getFontSize 0 = 40"
  by (simp add: getFontSize_def)

lemma getFontSize_antimono: "d1 \<le> d2 \<Longrightarrow> getFontSize d2 \<le> getFontSize d1"
  by (simp add: getFontSize_def Let_def)

lemma getFontSize_floor: "24 \<le> getFontSize d"
  by (simp add: getFontSize_def Let_def)

lemma getFontSize_le_40: "getFontSize d \<le> 40"
  by (simp add: getFontSize_def Let_def)

lemma getFontSize_formula: "getFontSize d = max (40 - 3 * real d) 24"
  by (simp add: getFontSize_def Let_def mult.commute)

text \<open>The padding accessor is the constant 40.\<close>

lemma pack_padding_const: "pack_padding = (\<lambda>depth. 40)"
  by (rule ext) (simp add: pack_padding_def maxFontSize_def getFontSize_def)

lemma min_pack_size: "min (fst pack_size) (snd pack_size) = 500"
  by (simp add: pack_size_def width_def height_def margin_def)

lemma packChildren_const:
  "packChildren (\<lambda>depth. c) k d t = Some rs \<Longrightarrow>
     rs \<noteq> [] \<and> 0 \<le> last rs \<and> gaps rs = replicate (length rs - 1) (2 * c * k)"
proof (induction "\<lambda>depth::nat. c" k d t arbitrary: rs rule: packChildren.induct)
  case (1 k depth n v a)
  then show ?case by auto
next
  case (2 k depth n v c' a)
  then show ?case
    by (auto simp add: Let_def split: option.splits list.splits)
next
  case (3 k depth n v c' c'' cs a)
  then show ?case by simp
qed

lemma packChildren_same_shape:
  "packChildren p1 k1 d1 t = Some rs1 \<Longrightarrow> packChildren p2 k2 d2 t = Some rs2 \<Longrightarrow>
     length rs2 = length rs1 \<and> last rs2 = last rs1"
proof (induction p1 k1 d1 t arbitrary: rs1 rs2 d2 rule: packChildren.induct)
  case (1 padding k depth n v a)
  then show ?case by auto
next
  case (2 padding k depth n v c a)
  then show ?case
    by (fastforce simp add: Let_def split: option.splits list.splits)
next
  case (3 padding k depth n v c c' cs a)
  then show ?case by simp
qed

lemma hd_from_gaps:
  "rs \<noteq> [] \<Longrightarrow> gaps rs = replicate (length rs - 1) g \<Longrightarrow>
     hd rs = last rs + real (length rs - 1) * g"
proof (induction rs rule: gaps.induct)
  case (1 a b rs)
  then show ?case by (simp add: algebra_simps)
qed simp_all

lemma gaps_map_scale: "gaps (map (\<lambda>r. r * s) rs) = map (\<lambda>g. g * s) (gaps rs)"
  by (induction rs rule: gaps.induct) (simp_all add: algebra_simps)

lemma packChain_radii:
  assumes "packChain t = Some rs" and "0 < last rs"
  shows "hd rs = 250"
    and "gaps rs = replicate (length rs - 1) (1000 / (25 + 4 * real (length rs - 1)))"
proof -
  from assms(1) obtain r0 rs0 r1 rs1 where
    p0: "packChildren (\<lambda>depth. 0) 1 0 t = Some (r0 # rs0)" and
    p1: "packChildren (\<lambda>depth. 40) (r0 / 500) 0 t = Some (r1 # rs1)" and
    rs: "rs = map (\<lambda>r. r * (500 / (2 * r1))) (r1 # rs1)"
    by (auto simp add: packChain_def Let_def min_pack_size pack_padding_const
        split: option.splits list.splits)
  define n where "n = length rs1"
  define s where "s = 500 / (2 * r1)"
  define \<rho> where "\<rho> = last (r1 # rs1)"
  from packChildren_const [OF p0] have g0: "gaps (r0 # rs0) = replicate (length rs0) 0"
    by simp
  from packChildren_same_shape [OF p0 p1]
  have len: "length rs0 = n" and lst: "last (r0 # rs0) = \<rho>"
    by (simp_all add: n_def \<rho>_def)
  from hd_from_gaps [of "r0 # rs0" 0] g0 lst have r0: "r0 = \<rho>" by simp
  from packChildren_const [OF p1]
  have nonneg: "0 \<le> \<rho>" and g1: "gaps (r1 # rs1) = replicate n (2 * 40 * (r0 / 500))"
    by (simp_all add: n_def \<rho>_def)
  from hd_from_gaps [of "r1 # rs1" "2 * 40 * (r0 / 500)"] g1
  have r1: "r1 = \<rho> + real n * (2 * 40 * (\<rho> / 500))"
    by (simp add: n_def \<rho>_def r0)
  have "last rs = \<rho> * s"
    unfolding rs s_def \<rho>_def by (simp add: last_map)
  with assms(2) nonneg have pos: "0 < \<rho>" and spos: "0 < s"
    by (auto simp add: zero_less_mult_iff)
  have r1': "r1 = \<rho> * (1 + 4 * real n / 25)"
    unfolding r1 by (simp add: algebra_simps)
  have r1pos: "0 < r1" unfolding r1' using pos by (simp add: zero_less_mult_iff add_pos_nonneg)
  have len_rs: "length rs - 1 = n" by (simp add: rs n_def)
  show "hd rs = 250"
    using r1pos by (simp add: rs)
  have "gaps rs = map (\<lambda>g. g * s) (gaps (r1 # rs1))"
    unfolding rs s_def by (rule gaps_map_scale)
  also have "\<dots> = replicate n (2 * 40 * (\<rho> / 500) * s)"
    by (simp add: g1 r0)
  also have "2 * 40 * (\<rho> / 500) * s = 1000 / (25 + 4 * real n)"
  proof -
    have nz: "25 + 4 * real n \<noteq> 0"
      using of_nat_0_le_iff [of n, where 'a = real] by linarith
    have sr: "s * r1 = 250" using r1pos by (simp add: s_def)
    have rD: "\<rho> * (25 + 4 * real n) = 25 * r1"
      by (simp add: r1' algebra_simps)
    have "2 * 40 * (\<rho> / 500) * s * (25 + 4 * real n)
        = (4 / 25) * (s * (\<rho> * (25 + 4 * real n)))"
      by (simp add: algebra_simps)
    also have "\<dots> = 4 * (s * r1)" unfolding rD by simp
    also have "\<dots> = 1000" by (simp add: sr)
    finally show ?thesis by (rule eq_divide_imp [OF nz])
  qed
  finally show "gaps rs = replicate (length rs - 1) (1000 / (25 + 4 * real (length rs - 1)))"
    unfolding len_rs .
qed

lemma pack_padding_eq_font_iff: "pack_padding d = getFontSize d \<longleftrightarrow> d = 0"
  by (auto simp add: pack_padding_const getFontSize_def Let_def max_def)

text \<open>
  C2 says that the separation applied during packing is a function of the depth
  that decreases with depth down to a fixed minimum, never below that minimum,
  mirroring the label font size of the depth. As stated it fails. In the layout
  of a root with one child the circle of the child lies \<open>1000 / 29\<close> (about
  34.5) inside the root circle: that is neither the font size 40 of depth 0
  nor the font size 37 of depth 1. In the layout of a chain of six nodes the
  separation is \<open>200 / 9\<close> (about 22.2) at every depth, the same at each and
  below the minimum font size 24.
\<close>

theorem C2_drawn_gap_counterexample:
  "map_option gaps (packChain
      (HierarchyNode ''SourceFile'' (Some 1) [HierarchyNode ''Block'' (Some 1) [] 2] 1))
     = Some [1000 / 29]
   \<and> 1000 / 29 < getFontSize 1 \<and> getFontSize 1 < getFontSize 0
   \<and> map_option gaps (packChain
      (HierarchyNode ''SourceFile'' (Some 1)
        [HierarchyNode ''Block'' (Some 1)
          [HierarchyNode ''Block'' (Some 1)
            [HierarchyNode ''Block'' (Some 1)
              [HierarchyNode ''Block'' (Some 1)
                [HierarchyNode ''Block'' (Some 1) [] 6] 5] 4] 3] 2] 1))
     = Some [200 / 9, 200 / 9, 200 / 9, 200 / 9, 200 / 9]
   \<and> (200 / 9 :: real) < 24"
  by (simp add: packChain_def Let_def min_pack_size pack_padding_const sum_accessor_def
      js_or_def getFontSize_def)

text \<open>
  C2, amended: the padding handed to the pack layout is the same number for
  every depth, \<open>getFontSize 0 = 40\<close>, the largest label font size. As a function
  of the depth it is therefore non-increasing and not below the minimum 24, and
  it equals the label font size of the depth, \<open>max (40 - 3 * depth) 24\<close>, at
  depth 0 only. The layout applies it multiplied by its scale: in the layout
  of a chain of \<open>n + 1\<close> nodes whose leaf has a positive radius, the root
  circle has radius 250 and every circle lies \<open>1000 / (25 + 4 * n)\<close> inside its
  parent, the same at every depth.
\<close>

theorem C2_padding_argument_and_drawn_gap:
  "pack_padding d = getFontSize 0 \<and> pack_padding d = 40
   \<and> getFontSize d = max (40 - 3 * real d) 24
   \<and> (d1 \<le> d2 \<longrightarrow> pack_padding d2 \<le> pack_padding d1)
   \<and> 24 \<le> pack_padding d
   \<and> (pack_padding d = getFontSize d \<longleftrightarrow> d = 0)
   \<and> (packChain t = Some rs \<and> 0 < last rs \<longrightarrow>
        hd rs = 250
        \<and> gaps rs = replicate (length rs - 1) (1000 / (25 + 4 * real (length rs - 1))))"
  using packChain_radii [of t rs] getFontSize_formula [of d] pack_padding_eq_font_iff [of d]
  by (simp add: pack_padding_const getFontSize_def)

text \<open>The amended C2 at the depths 2 and 7 and on the layout of a root with one child.\<close>

theorem C2_padding_argument_and_drawn_gap_witness:
  "pack_padding 7 = 40 \<and> getFontSize 7 = 24 \<and> pack_padding 7 \<le> pack_padding 2
   \<and> packChain (HierarchyNode ''SourceFile'' (Some 1) [HierarchyNode ''Block'' (Some 1) [] 2] 1)
       = Some [250, 6250 / 29]
   \<and> gaps [250, 6250 / 29] = [1000 / 29]"
proof -
  let ?t = "HierarchyNode ''SourceFile'' (Some 1) [HierarchyNode ''Block'' (Some 1) [] 2] 1"
  have p: "packChain ?t = Some [250, 6250 / 29]"
    by (simp add: packChain_def Let_def min_pack_size pack_padding_const sum_accessor_def js_or_def)
  have l: "(0::real) < last [250, 6250 / 29]" by simp
  have "(2::nat) \<le> 7" by simp
  with C2_padding_argument_and_drawn_gap [of 7 2 7 ?t "[250, 6250 / 29]"] p l
  show ?thesis by simp
qed

subsection \<open>Aggregate values\<close>

lemma js_or_cases:
  "js_or None b = b" "js_or (Some 0) b = b" "v \<noteq> 0 \<Longrightarrow> js_or (Some v) b = v"
  by (simp_all add: js_or_def)

lemma sum_accessor_nonzero: "sum_accessor d \<noteq> 0"
  by (simp add: sum_accessor_def js_or_def split: option.splits)

lemma node_sum_eq: "node_sum d = sum_accessor d + sum_list (map node_sum (children d))"
  using sum_accessor_nonzero [of d] by (cases d) (simp add: js_or_def)

text \<open>
  C4, as stated, fails for a negative weight: a negative number is truthy, so
  \<^verbatim>\<open>d.value || 1\<close> keeps it. A leaf of value -5 enters the aggregate with -5.
\<close>

theorem C4_negative_weight_counterexample:
  "sum_accessor (HierarchyNode ''Block'' (Some (- 5)) [] 0) = - 5
   \<and> node_sum (HierarchyNode ''Block'' (Some (- 5)) [] 0) \<noteq> 1"
  by (simp add: sum_accessor_def js_or_def)

text \<open>
  C4, amended: a node whose weight is missing or zero counts with the unit weight
  1 in the aggregate values; every other weight, a negative one included, counts
  as it is. The aggregate value of a node is its own weight, so read, plus the
  aggregate values of its children.
\<close>

theorem C4_unit_weight_when_missing_or_zero:
  "(val d = None \<or> val d = Some 0 \<longrightarrow> sum_accessor d = 1)
   \<and> (val d = Some v \<and> v \<noteq> 0 \<longrightarrow> sum_accessor d = v)
   \<and> node_sum d = sum_accessor d + sum_list (map node_sum (children d))"
  using node_sum_eq [of d] by (auto simp add: sum_accessor_def js_or_def)

text \<open>The amended C4 on a node without value whose only child has the value 0.\<close>

theorem C4_unit_weight_witness:
  "sum_accessor (HierarchyNode ''Block'' None [HierarchyNode ''Leaf'' (Some 0) [] 1] 0) = 1
   \<and> node_sum (HierarchyNode ''Block'' None [HierarchyNode ''Leaf'' (Some 0) [] 1] 0) = 2"
proof -
  let ?leaf = "HierarchyNode ''Leaf'' (Some 0) [] 1"
  let ?d = "HierarchyNode ''Block'' None [?leaf] 0"
  have "val ?d = None \<or> val ?d = Some 0" by simp
  moreover have "val ?leaf = None \<or> val ?leaf = Some 0" by simp
  ultimately show ?thesis
    using C4_unit_weight_when_missing_or_zero [of ?d 1]
      C4_unit_weight_when_missing_or_zero [of ?leaf 1]
    by (simp add: js_or_def)
qed

subsection \<open>Clicks, transitions and the view transform\<close>

lemma clickTarget_simps:
  "scale (clickTarget n) = min (width - margin * 2) (height - margin * 2) / (node_r n * 2)"
  "tx (clickTarget n) = margin + ((width - margin * 2) / 2 - node_x n * scale (clickTarget n))"
  "ty (clickTarget n) = margin + ((height - margin * 2) / 2 - node_y n * scale (clickTarget n))"
  by (simp_all add: clickTarget_def Let_def)

lemma transition_callHover [simp]: "transition (callHover v s) = transition s"
  by (simp add: callHover_def split: option.splits)

lemma zoomTransform_callHover [simp]: "zoomTransform (callHover v s) = zoomTransform s"
  by (simp add: callHover_def split: option.splits)

lemma focusedNode_callHover [simp]: "focusedNode (callHover v s) = focusedNode s"
  by (simp add: callHover_def split: option.splits)

lemma ringLabels_callHover [simp]: "ringLabels (callHover v s) = ringLabels s"
  by (simp add: callHover_def split: option.splits)

lemma labelElements_callHover [simp]: "labelElements (callHover v s) = labelElements s"
  by (simp add: callHover_def split: option.splits)

lemma transition_click: "transition (click n s) = Some (ZoomTo (clickTarget n) n)"
  by (simp add: click_def setAllLabels_def)

lemma zoomTransform_setOpacity [simp]: "zoomTransform (setOpacity e v s) = zoomTransform s"
  by (simp add: setOpacity_def split: Element.splits)

lemma zoomTransform_transitionEnd_click:
  "zoomTransform (transitionEnd (click n s)) = clickTarget n"
  by (simp add: transitionEnd_def transition_click Let_def split: option.splits)

text \<open>
  C6: a click on a node with circle \<open>(x, y, r)\<close>, \<open>r > 0\<close>, starts a transition
  whose target, reached when the transition ends, has
  \<open>scale = min viewW viewH / (2 * r)\<close> and
  \<open>translate = margin + (viewCenter - (x, y) * scale)\<close>, where \<open>viewW\<close> and
  \<open>viewH\<close> are the sides \<open>width - 2 * margin\<close> and \<open>height - 2 * margin\<close> of the
  interior box and \<open>viewCenter\<close> is its centre. Under this transform the
  circle's centre lands on the centre of the interior box and its diameter
  becomes the box's shorter side: the clicked circle fills the interior box.
\<close>

theorem C6_click_fills_interior:
  assumes "0 < node_r n"
  shows "transition (click n s) = Some (ZoomTo (clickTarget n) n)
    \<and> zoomTransform (transitionEnd (click n s)) = clickTarget n
    \<and> scale (clickTarget n) = min (width - 2 * margin) (height - 2 * margin) / (2 * node_r n)
    \<and> tx (clickTarget n) = margin + ((width - 2 * margin) / 2 - node_x n * scale (clickTarget n))
    \<and> ty (clickTarget n) = margin + ((height - 2 * margin) / 2 - node_y n * scale (clickTarget n))
    \<and> applyTransform (clickTarget n) (node_x n, node_y n)
        = (margin + (width - 2 * margin) / 2, margin + (height - 2 * margin) / 2)
    \<and> scale (clickTarget n) * node_r n = min (width - 2 * margin) (height - 2 * margin) / 2"
  using assms
  by (simp add: transition_click zoomTransform_transitionEnd_click clickTarget_simps
      applyTransform_def mult.commute)

text \<open>
  C6 on the circle \<open>(200, 300, 100)\<close>: the scale is \<open>500 / 200\<close> and the centre
  lands on \<open>(400, 300)\<close>, the centre of the 800 by 600 surface.
\<close>

theorem C6_click_fills_interior_witness:
  "(0::real) < 100
   \<and> zoomTransform (transitionEnd (click
        \<lparr>node_data = HierarchyNode ''Block'' (Some 1) [] 2, node_depth = 2,
         node_x = 200, node_y = 300, node_r = 100\<rparr> initial))
      = \<lparr>tx = - 100, ty = - 450, scale = 5 / 2\<rparr>
   \<and> applyTransform \<lparr>tx = - 100, ty = - 450, scale = 5 / 2\<rparr> (200, 300) = (400, 300)"
proof -
  let ?n = "\<lparr>node_data = HierarchyNode ''Block'' (Some 1) [] 2, node_depth = 2,
             node_x = 200, node_y = 300, node_r = 100\<rparr>"
  have pos: "0 < node_r ?n" by simp
  have t: "clickTarget ?n = \<lparr>tx = - 100, ty = - 450, scale = 5 / 2\<rparr>"
    by (simp add: clickTarget_def Let_def width_def height_def margin_def)
  from C6_click_fills_interior [OF pos, of initial, unfolded t] show ?thesis
    by (simp add: width_def height_def margin_def)
qed

lemma zoomTransform_transitionEnd_reset:
  "zoomTransform (transitionEnd (handleResetZoom s)) = \<lparr>tx = 50, ty = 50, scale = 1\<rparr>"
  by (simp add: transitionEnd_def handleResetZoom_def setAllLabels_def)

lemma zoomTransform_render: "zoomTransform (render ns s) = rootTransform"
  by (simp add: render_def)

text \<open>
  C7: after the drawing effect, let any sequence of events on the circles happen
  (clicks on any nodes, ends of transitions, pointer moves), then the reset
  action. When the reset's transition has ended, the view transform is the one
  the effect had set: \<open>translate = (margin, margin)\<close> and \<open>scale = 1\<close>; and no
  node is focused.
\<close>

theorem C7_reset_restores_root_transform:
  "zoomTransform (transitionEnd (handleResetZoom (run es (render ns s))))
     = zoomTransform (render ns s)
   \<and> zoomTransform (transitionEnd (handleResetZoom (run es (render ns s))))
     = \<lparr>tx = margin, ty = margin, scale = 1\<rparr>
   \<and> focusedNode (transitionEnd (handleResetZoom (run es (render ns s)))) = None"
  by (simp add: zoomTransform_transitionEnd_reset zoomTransform_render rootTransform_def
      margin_def transitionEnd_def handleResetZoom_def setAllLabels_def)

subsection \<open>The hover listener\<close>

text \<open>
  C10: a click on a node's circle, besides setting the focus and starting the
  transition, calls the listener that is in the slot at that moment, once, with
  the clicked node's \<^verbatim>\<open>astNode\<close>; no pointer-enter event is involved.
\<close>

theorem C10_click_calls_hover_listener:
  assumes "onNodeHoverRef s = Some l"
  shows "hoverCalls (click n s) = hoverCalls s @ [(l, Some (astNode (node_data n)))]
    \<and> transition (click n s) = Some (ZoomTo (clickTarget n) n)
    \<and> focusedNode (click n s) = Some (astNode (node_data n))"
  using assms by (simp add: click_def callHover_def setAllLabels_def)

text \<open>C10 with the listener 7 in the slot and a click on the node of \<^verbatim>\<open>astNode\<close> 2.\<close>

theorem C10_click_calls_hover_listener_witness:
  "onNodeHoverRef (setListener (Some 7) initial) = Some 7
   \<and> hoverCalls (click
        \<lparr>node_data = HierarchyNode ''Block'' (Some 1) [] 2, node_depth = 2,
         node_x = 200, node_y = 300, node_r = 100\<rparr> (setListener (Some 7) initial))
      = [(7, Some 2)]"
proof -
  have l: "onNodeHoverRef (setListener (Some 7) initial) = Some 7"
    by (simp add: setListener_def)
  have "hoverCalls (setListener (Some 7) initial) = []"
    by (simp add: setListener_def initial_def)
  with C10_click_calls_hover_listener [OF l] l show ?thesis by simp
qed

subsection \<open>Bounds on pi for the character budget\<close>

lemma sum8: "(\<Sum>m<8. f m) = f 0 + f 1 + f 2 + f 3 + f 4 + f 5 + f 6 + f (7::nat)"
  for f :: "nat \<Rightarrow> real"
  by (simp add: eval_nat_numeral)

lemma cos_poly8: "(\<Sum>m<8. cos_coeff m * x ^ m) = 1 - x^2/2 + x^4/24 - x^6/720"
  for x :: real
  unfolding sum8 by (simp add: cos_coeff_def fact_numeral)


lemma cos_lower8:
  fixes x :: real
  assumes "0 < x"
  shows "1 - x^2/2 + x^4/24 - x^6/720 - x^8/40320 \<le> cos x"
proof -
  obtain t where "cos x = (\<Sum>m<8. cos_coeff m * x ^ m)
      + (cos (t + 1/2 * real (8::nat) * pi) / fact 8) * x ^ 8"
    using Maclaurin_cos_expansion2 [OF assms, of 8] by auto
  moreover have "- (x^8 / 40320) \<le> (cos (t + 1/2 * real (8::nat) * pi) / fact 8) * x ^ 8"
  proof -
    have "-1 \<le> cos (t + 1/2 * real (8::nat) * pi)" by simp
    moreover have "0 \<le> x^8 / fact 8" by simp
    ultimately have "(-1) * (x^8 / fact 8) \<le> cos (t + 1/2 * real (8::nat) * pi) * (x^8 / fact 8)"
      by (rule mult_right_mono)
    then show ?thesis by (simp add: fact_numeral)
  qed
  ultimately show ?thesis unfolding cos_poly8 by linarith
qed

lemma pi_gt_3135: "627 / 200 < pi"
proof -
  define x :: real where "x = 627 / 400"
  have pos: "0 < x" by (simp add: x_def)
  have "0 < 1 - x^2/2 + x^4/24 - x^6/720 - x^8/40320"
    unfolding x_def by (simp add: power_numeral_reduce)
  with cos_lower8 [OF pos] have "0 < cos x" by linarith
  moreover have "cos x \<le> 0" if "pi/2 \<le> x"
    using cos_monotone_0_pi_le [of "pi/2" x] that pi_ge_two by (simp add: x_def)
  ultimately have "x < pi/2" by fastforce
  then show ?thesis by (simp add: x_def)
qed


subsection \<open>Label truncation\<close>

lemma slice_prefix:
  "0 \<le> e \<Longrightarrow> slice s 0 e = take (nat e) s"
  by (auto simp add: slice_def Let_def min_def)


text \<open>
  A label over the budget \<open>mc\<close> is cut to its first \<open>mc - 2\<close> characters and
  three dots are appended: \<open>mc + 1\<close> characters in all.
\<close>

lemma truncatedLabel_cut:
  assumes "mc < int (length label)" and "2 \<le> mc"
  shows "truncatedLabel label mc = take (nat (mc - 2)) label @ ''...''"
    and "int (length (truncatedLabel label mc)) = mc + 1"
  using assms by (simp_all add: truncatedLabel_def slice_prefix)


text \<open>Where a label is drawn, the budget is at least 3.\<close>

lemma maxChars_labelled:
  assumes "labelled d"
  shows "3 \<le> maxChars (node_r d - 5) (getFontSize (node_depth d))"
proof -
  from assms have d: "node_depth d = 0" and r: "30 < node_r d"
    by (simp_all add: labelled_def)
  have "3 * 24 \<le> 25 * pi" using pi_gt_3135 by simp
  also have "25 * pi \<le> (node_r d - 5) * pi" using r by simp
  finally have "3 \<le> (node_r d - 5) * pi / 24" by simp
  then have "3 \<le> \<lfloor>(node_r d - 5) * pi / 24\<rfloor>" by linarith
  then show ?thesis by (simp add: maxChars_def getFontSize_def d)
qed

text \<open>
  On a node that passes the guard, a name over the budget gives a text of one
  character more than the budget.
\<close>

lemma drawn_label_too_long:
  assumes "labelled d"
    and "maxChars (node_r d - 5) (getFontSize (node_depth d)) < int (length (name (node_data d)))"
  shows "int (length (te_text (drawLabel (d, i))))
           = maxChars (node_r d - 5) (getFontSize (node_depth d)) + 1"
proof -
  from maxChars_labelled [OF assms(1)]
  have "2 \<le> maxChars (node_r d - 5) (getFontSize (node_depth d))" by simp
  from truncatedLabel_cut(2) [OF assms(2) this] show ?thesis
    by (simp add: drawLabel_def Let_def)
qed





subsection \<open>Focus and labels across clicks and rebuilds\<close>

text \<open>The drawing effect leaves the focused node as it was.\<close>

lemma focusedNode_render: "focusedNode (render ns s) = focusedNode s"
  by (simp add: render_def)

lemma labelElements_render_ZoomGroup:
  "l \<in> set (labelElements (render ns s)) \<Longrightarrow> le_text l = ZoomGroup"
  by (auto simp add: render_def labelEntry_def)

lemma ringLabels_click:
  "ringLabels (click n s) = map (\<lambda>t. t\<lparr>te_opacity := 0\<rparr>) (ringLabels s)"
  by (simp add: click_def setAllLabels_def)

lemma labelElements_click: "labelElements (click n s) = labelElements s"
  by (simp add: click_def setAllLabels_def)

text \<open>At the start of a focus transition every label is hidden.\<close>

lemma click_hides_all_labels:
  "t \<in> set (ringLabels (click n s)) \<Longrightarrow> te_opacity t = 0"
  by (auto simp add: ringLabels_click)

lemma ringLabels_transitionEnd_click:
  assumes "\<And>l. l \<in> set (labelElements s) \<Longrightarrow> le_text l = ZoomGroup"
  shows "ringLabels (transitionEnd (click n s)) = map (\<lambda>t. t\<lparr>te_opacity := 0\<rparr>) (ringLabels s)"
proof (cases "find (\<lambda>l. le_node l = n) (labelElements s)")
  case None
  then show ?thesis
    by (simp add: transitionEnd_def transition_click Let_def labelElements_click ringLabels_click)
next
  case (Some l)
  then have "l \<in> set (labelElements s)"
    by (auto simp add: find_Some_iff)
  with assms have "le_text l = ZoomGroup" by simp
  with Some show ?thesis
    by (simp add: transitionEnd_def transition_click Let_def labelElements_click
        ringLabels_click setOpacity_def)
qed

text \<open>
  When the transition of a click has ended, every label is still hidden: the
  \<^verbatim>\<open>end\<close> listener writes the opacity of the group, not of a label.
\<close>

lemma labels_stay_hidden_after_zoom:
  "t \<in> set (ringLabels (transitionEnd (click n (render ns s)))) \<Longrightarrow> te_opacity t = 0"
  using ringLabels_transitionEnd_click [of "render ns s" n]
    labelElements_render_ZoomGroup [of _ ns s]
  by auto

text \<open>
  C8 says that a focus transition hides all ring labels at its start and that,
  once it has ended, the label of the node focused to is visible if that node is
  eligible (top-level ring, radius over the threshold). The code breaks the
  second part. The root circle of radius 250 is eligible and its label is drawn
  with opacity 1; after a click on the root and the end of the transition the
  label's opacity is 0.
\<close>

theorem C8_root_label_stays_hidden:
  "labelled \<lparr>node_data = HierarchyNode ''SourceFile'' (Some 1) [HierarchyNode ''Block'' (Some 1) [] 2] 1,
            node_depth = 0, node_x = 350, node_y = 250, node_r = 250\<rparr>
   \<and> map te_opacity (ringLabels (render
        [\<lparr>node_data = HierarchyNode ''SourceFile'' (Some 1) [HierarchyNode ''Block'' (Some 1) [] 2] 1,
          node_depth = 0, node_x = 350, node_y = 250, node_r = 250\<rparr>] initial)) = [1]
   \<and> map te_opacity (ringLabels (transitionEnd (click
        \<lparr>node_data = HierarchyNode ''SourceFile'' (Some 1) [HierarchyNode ''Block'' (Some 1) [] 2] 1,
         node_depth = 0, node_x = 350, node_y = 250, node_r = 250\<rparr>
        (render
          [\<lparr>node_data = HierarchyNode ''SourceFile'' (Some 1) [HierarchyNode ''Block'' (Some 1) [] 2] 1,
            node_depth = 0, node_x = 350, node_y = 250, node_r = 250\<rparr>] initial)))) = [0]"
  by (simp add: labelled_def render_def indexed_def drawLabel_def Let_def initial_def
      transitionEnd_def click_def callHover_def setAllLabels_def labelEntry_def setOpacity_def)

text \<open>
  C5 says that when the tree is rebuilt and the focused node is not in the new
  tree, the focus resets to the root at once and no stale reference is left. The
  code keeps the reference: after a click on the node of \<^verbatim>\<open>astNode\<close> 2 and a
  rebuild with a tree whose only node has \<^verbatim>\<open>astNode\<close> 3, the focused node is
  still 2.
\<close>

theorem C5_focus_survives_rebuild:
  "focusedNode (render
      [\<lparr>node_data = HierarchyNode ''SourceFile'' (Some 1) [] 3,
        node_depth = 0, node_x = 350, node_y = 250, node_r = 250\<rparr>]
      (transitionEnd (click
        \<lparr>node_data = HierarchyNode ''Block'' (Some 1) [] 2,
         node_depth = 1, node_x = 350, node_y = 250, node_r = 210\<rparr>
        (render
          [\<lparr>node_data = HierarchyNode ''SourceFile'' (Some 1) [HierarchyNode ''Block'' (Some 1) [] 2] 1,
            node_depth = 0, node_x = 350, node_y = 250, node_r = 250\<rparr>,
           \<lparr>node_data = HierarchyNode ''Block'' (Some 1) [] 2,
            node_depth = 1, node_x = 350, node_y = 250, node_r = 210\<rparr>] initial)))) = Some 2
   \<and> 2 \<notin> set (map (\<lambda>d. astNode (node_data d))
      [\<lparr>node_data = HierarchyNode ''SourceFile'' (Some 1) [] 3,
        node_depth = 0, node_x = 350, node_y = 250, node_r = 250\<rparr>])"
  by (simp add: render_def transitionEnd_def click_def callHover_def setAllLabels_def
      initial_def Let_def indexed_def labelled_def labelEntry_def setOpacity_def)

end
